theory Spec2Isabelle
  imports Main "HOL-Library.Word"
begin

unbundle bit_operations_syntax

section \<open>The sun8i thermal sensor driver (drivers/thermal/sun8i\_ths.c)\<close>

text \<open>
  Machine integers are words: \<open>u32\<close> for the kernel's \<open>u32\<close>, \<open>u64\<close> for
  \<open>uint64_t\<close>, and \<open>s32\<close> for C's \<open>int\<close> (a 32-bit word read with \<open>sint\<close>; the
  kernel is built so that narrowing conversions and signed arithmetic wrap).
\<close>

type_synonym u32 = "32 word"
type_synonym u64 = "64 word"
type_synonym s32 = "32 word"

subsection \<open>Register offsets and bit fields (lines 29-71)\<close>

definition BIT :: "nat \<Rightarrow> u32" where
  "BIT n = push_bit n 1"

definition THS_SUN8I_CTRL0 :: u32 where "THS_SUN8I_CTRL0 = 0x00"
definition THS_SUN8I_CTRL2 :: u32 where "THS_SUN8I_CTRL2 = 0x40"
definition THS_SUN8I_INT_CTRL :: u32 where "THS_SUN8I_INT_CTRL = 0x44"
definition THS_SUN8I_STAT :: u32 where "THS_SUN8I_STAT = 0x48"
definition THS_SUN8I_FILTER :: u32 where "THS_SUN8I_FILTER = 0x70"
definition THS_SUN8I_CDATA01 :: u32 where "THS_SUN8I_CDATA01 = 0x74"
definition THS_SUN8I_CDATA2 :: u32 where "THS_SUN8I_CDATA2 = 0x78"
definition THS_SUN8I_DATA0 :: u32 where "THS_SUN8I_DATA0 = 0x80"
definition THS_SUN8I_DATA1 :: u32 where "THS_SUN8I_DATA1 = 0x84"
definition THS_SUN8I_DATA2 :: u32 where "THS_SUN8I_DATA2 = 0x88"

definition THS_SUN8I_CTRL0_SENSOR_ACQ0 :: "u32 \<Rightarrow> u32" where
  "THS_SUN8I_CTRL0_SENSOR_ACQ0 x = x"
definition THS_SUN8I_CTRL2_SENSE_EN0 :: u32 where "THS_SUN8I_CTRL2_SENSE_EN0 = BIT 0"
definition THS_SUN8I_CTRL2_SENSE_EN1 :: u32 where "THS_SUN8I_CTRL2_SENSE_EN1 = BIT 1"
definition THS_SUN8I_CTRL2_SENSE_EN2 :: u32 where "THS_SUN8I_CTRL2_SENSE_EN2 = BIT 2"
definition THS_SUN8I_CTRL2_SENSOR_ACQ1 :: "u32 \<Rightarrow> u32" where
  "THS_SUN8I_CTRL2_SENSOR_ACQ1 x = push_bit 16 x"
definition THS_SUN8I_INT_CTRL_DATA0_IRQ_EN :: u32 where
  "THS_SUN8I_INT_CTRL_DATA0_IRQ_EN = BIT 8"
definition THS_SUN8I_INT_CTRL_DATA1_IRQ_EN :: u32 where
  "THS_SUN8I_INT_CTRL_DATA1_IRQ_EN = BIT 9"
definition THS_SUN8I_INT_CTRL_DATA2_IRQ_EN :: u32 where
  "THS_SUN8I_INT_CTRL_DATA2_IRQ_EN = BIT 10"
definition THS_SUN8I_INT_CTRL_THERMAL_PER :: "u32 \<Rightarrow> u32" where
  "THS_SUN8I_INT_CTRL_THERMAL_PER x = push_bit 12 x"
definition THS_SUN8I_STAT_DATA0_IRQ_STS :: u32 where
  "THS_SUN8I_STAT_DATA0_IRQ_STS = BIT 8"
definition THS_SUN8I_STAT_DATA1_IRQ_STS :: u32 where
  "THS_SUN8I_STAT_DATA1_IRQ_STS = BIT 9"
definition THS_SUN8I_STAT_DATA2_IRQ_STS :: u32 where
  "THS_SUN8I_STAT_DATA2_IRQ_STS = BIT 10"
definition THS_SUN8I_STAT_CLEAR :: u32 where "THS_SUN8I_STAT_CLEAR = 0x777"
definition THS_SUN8I_FILTER_TYPE :: "u32 \<Rightarrow> u32" where
  "THS_SUN8I_FILTER_TYPE x = push_bit 0 x"
definition THS_SUN8I_FILTER_EN :: u32 where "THS_SUN8I_FILTER_EN = BIT 2"

definition THS_SUN8I_CLK_IN :: u32 where "THS_SUN8I_CLK_IN = 40000000"
definition THS_SUN8I_DATA_PERIOD :: u32 where "THS_SUN8I_DATA_PERIOD = 330"
definition THS_SUN8I_FILTER_TYPE_VALUE :: u32 where "THS_SUN8I_FILTER_TYPE_VALUE = 2"

definition THS_SUN8I_FILTER_DIV :: u32 where
  "THS_SUN8I_FILTER_DIV = push_bit (unat (THS_SUN8I_FILTER_TYPE_VALUE + 1)) 1"

text \<open>
  The macro is evaluated by the compiler on \<open>int\<close> constants; every intermediate value
  is positive and below \<open>2^31\<close>, so the same operations on \<open>u32\<close> give the same word.
\<close>

definition THS_SUN8I_INT_CTRL_THERMAL_PER_VALUE :: u32 where
  "THS_SUN8I_INT_CTRL_THERMAL_PER_VALUE =
     THS_SUN8I_DATA_PERIOD * (THS_SUN8I_CLK_IN div 1000) div
       THS_SUN8I_FILTER_DIV div 4096 - 1"

definition THS_SUN8I_CTRL0_SENSOR_ACQ0_VALUE :: u32 where
  "THS_SUN8I_CTRL0_SENSOR_ACQ0_VALUE = 0x3f"
definition THS_SUN8I_CTRL2_SENSOR_ACQ1_VALUE :: u32 where
  "THS_SUN8I_CTRL2_SENSOR_ACQ1_VALUE = 0x3f"

definition SUN8I_THS_MAX_TZDS :: nat where "SUN8I_THS_MAX_TZDS = 3"

subsection \<open>Temperature conversion (lines 104-120)\<close>

text \<open>
  \<open>do_div(temp, d)\<close> replaces the 64-bit \<open>temp\<close> by its unsigned quotient by \<open>d\<close>;
  \<open>(int)temp\<close> keeps the low 32 bits.
\<close>

definition sun8i_ths_calc_temp_h3 :: "u32 \<Rightarrow> s32" where
  "sun8i_ths_calc_temp_h3 reg_val =
     (let temp = (ucast reg_val :: u64) * 1000000;
          temp = temp div 8253
      in 217000 - (ucast temp :: s32))"

definition sun8i_ths_calc_temp_a83t :: "u32 \<Rightarrow> s32" where
  "sun8i_ths_calc_temp_a83t reg_val =
     (let temp = (ucast reg_val :: u64) * 1000000;
          temp = temp div 14186
      in 192000 - (ucast temp :: s32))"

subsection \<open>Data model (lines 73-102)\<close>

record sun8i_ths_sensor_desc =
  data_int_en :: u32
  data_int_flag :: u32
  data_offset :: u32
  sense_en :: u32

text \<open>\<open>sensors\<close> is the pointed-to array; \<open>num_sensors\<close> is stored separately, as in C.\<close>

record sun8i_ths_desc =
  num_sensors :: int
  sensors :: "sun8i_ths_sensor_desc list"
  calc_temp :: "u32 \<Rightarrow> s32"
  has_cal1 :: bool

text \<open>
  Of \<open>struct sun8i_ths_tzd\<close> only \<open>temp\<close> is mutable state of the driver. The back
  pointer \<open>data\<close> is modelled by passing the device data along, and the zone handle
  \<open>tzd\<close> of \<open>tzds[i]\<close> is the zone that probe registers under sensor id \<open>i\<close>
  (line 315), identified below by that index.
\<close>

record sun8i_ths_tzd =
  temp :: u32

text \<open>
  Of \<open>struct sun8i_ths_data\<close>: \<open>regs\<close> always maps the "ths" resource (probe fails
  otherwise), \<open>cal_regs\<close> is \<open>True\<close> when the pointer is non-NULL, that is when a
  "calibration" resource was mapped; \<open>tzds\<close> is the array of \<open>SUN8I_THS_MAX_TZDS\<close>
  entries. Device, clock and reset handles play no part in the functions below.
\<close>

record sun8i_ths_data =
  cal_regs :: bool
  desc :: sun8i_ths_desc
  tzds :: "sun8i_ths_tzd list"

subsection \<open>Register accesses and notifications as events\<close>

text \<open>
  The two memory-mapped regions, and what the driver does to the outside world, in
  program order: \<open>Readl m off v\<close> is a \<open>readl\<close> at offset \<open>off\<close> of region \<open>m\<close> that
  returned \<open>v\<close>, \<open>Writel v m off\<close> is \<open>writel(v, m + off)\<close>, and
  \<open>Thermal_zone_device_update i\<close> is the call
  \<open>thermal_zone_device_update(data->tzds[i].tzd, THERMAL_EVENT_TEMP_SAMPLE)\<close>.
  The hardware is an oracle \<open>io\<close>: \<open>io m off\<close> is the value a \<open>readl\<close> of that
  register returns during the invocation at hand.
\<close>

datatype iomem = Regs | Cal_regs

datatype event =
  Readl iomem u32 u32
| Writel u32 iomem u32
| Thermal_zone_device_update nat

type_synonym io = "iomem \<Rightarrow> u32 \<Rightarrow> u32"

fun is_readl :: "iomem \<Rightarrow> u32 \<Rightarrow> event \<Rightarrow> bool" where
  "is_readl m off (Readl m' off' v) = (m' = m \<and> off' = off)"
| "is_readl m off (Writel v m' off') = False"
| "is_readl m off (Thermal_zone_device_update i) = False"

fun is_writel :: "iomem \<Rightarrow> u32 \<Rightarrow> event \<Rightarrow> bool" where
  "is_writel m off (Writel v m' off') = (m' = m \<and> off' = off)"
| "is_writel m off (Readl m' off' v) = False"
| "is_writel m off (Thermal_zone_device_update i) = False"

fun is_read_from :: "iomem \<Rightarrow> event \<Rightarrow> bool" where
  "is_read_from m (Readl m' off v) = (m' = m)"
| "is_read_from m (Writel v m' off) = False"
| "is_read_from m (Thermal_zone_device_update i) = False"

fun is_write :: "event \<Rightarrow> bool" where
  "is_write (Writel v m off) = True"
| "is_write (Readl m off v) = False"
| "is_write (Thermal_zone_device_update i) = False"

subsection \<open>Readback (lines 122-132)\<close>

datatype errno = EBUSY

text \<open>\<open>Inl EBUSY\<close> is the return value \<open>-EBUSY\<close>; \<open>Inr t\<close> is return value 0 with \<open>*out = t\<close>.\<close>

definition sun8i_ths_get_temp :: "sun8i_ths_data \<Rightarrow> sun8i_ths_tzd \<Rightarrow> errno + s32" where
  "sun8i_ths_get_temp data tzd =
     (if temp tzd = 0 then Inl EBUSY
      else Inr (calc_temp (desc data) (temp tzd)))"

subsection \<open>Interrupt thread (lines 134-158)\<close>

text \<open>
  One iteration of the loop of lines 145-155 at index \<open>i\<close>, on the device data and the
  events so far. An index outside \<open>tzds\<close> or outside the descriptor's \<open>sensors\<close> array
  is undefined behaviour in C: \<open>None\<close>.
\<close>

definition irq_body ::
  "io \<Rightarrow> u32 \<Rightarrow> nat \<Rightarrow> sun8i_ths_data \<times> event list \<Rightarrow> (sun8i_ths_data \<times> event list) option" where
  "irq_body io status i st =
     (case st of (data, evs) \<Rightarrow>
        if i < length (tzds data) \<and> i < length (sensors (desc data)) then
          let zdesc = sensors (desc data) ! i in
          if status AND data_int_flag zdesc \<noteq> 0 then
            let v = io Regs (data_offset zdesc);
                data' = data\<lparr>tzds := (tzds data)[i := (tzds data ! i)\<lparr>temp := v\<rparr>]\<rparr>;
                evs' = evs @ [Readl Regs (data_offset zdesc) v]
            in Some (data', if v \<noteq> 0 then evs' @ [Thermal_zone_device_update i] else evs')
          else Some (data, evs)
        else None)"

function irq_loop ::
  "io \<Rightarrow> u32 \<Rightarrow> nat \<Rightarrow> sun8i_ths_data \<times> event list \<Rightarrow> (sun8i_ths_data \<times> event list) option" where
  "irq_loop io status i (data, evs) =
     (if int i < num_sensors (desc data) then
        (case irq_body io status i (data, evs) of
           None \<Rightarrow> None
         | Some st' \<Rightarrow> irq_loop io status (Suc i) st')
      else Some (data, evs))"
  by pat_completeness auto
termination
proof (relation "measure (\<lambda>(io, status, i, st). nat (num_sensors (desc (fst st))) - i)")
  show "wf (measure (\<lambda>(io, status, i, st). nat (num_sensors (desc (fst st))) - i))"
    by simp
next
  fix io :: io and status :: u32 and i :: nat and data :: sun8i_ths_data
    and evs :: "event list" and st' :: "sun8i_ths_data \<times> event list"
  assume lt: "int i < num_sensors (desc data)"
    and body: "irq_body io status i (data, evs) = Some st'"
  have "desc (fst st') = desc data"
    using body by (auto simp: irq_body_def Let_def split: if_splits)
  then show "((io, status, Suc i, st'), (io, status, i, (data, evs)))
      \<in> measure (\<lambda>(io, status, i, st). nat (num_sensors (desc (fst st))) - i)"
    using lt by simp
qed

declare irq_loop.simps [simp del]

text \<open>
  The thread reads the status register, acknowledges with \<open>THS_SUN8I_STAT_CLEAR\<close> and
  runs the loop; its return value is always \<open>IRQ_HANDLED\<close> and is left out.
\<close>

definition sun8i_ths_irq_thread ::
  "io \<Rightarrow> sun8i_ths_data \<Rightarrow> (sun8i_ths_data \<times> event list) option" where
  "sun8i_ths_irq_thread io data =
     (let status = io Regs THS_SUN8I_STAT;
          evs = [Readl Regs THS_SUN8I_STAT status,
                 Writel THS_SUN8I_STAT_CLEAR Regs THS_SUN8I_STAT]
      in irq_loop io status 0 (data, evs))"

text \<open>
  A sequence of invocations, each with the register values the hardware shows at that
  time (the platform serialises the invocations). The events are those of all
  invocations, in order.
\<close>

fun irq_run ::
  "io list \<Rightarrow> sun8i_ths_data \<Rightarrow> (sun8i_ths_data \<times> event list) option" where
  "irq_run [] data = Some (data, [])"
| "irq_run (io # ios) data =
     (case sun8i_ths_irq_thread io data of
        None \<Rightarrow> None
      | Some (data', evs) \<Rightarrow>
          (case irq_run ios data' of
             None \<Rightarrow> None
           | Some (data'', evs') \<Rightarrow> Some (data'', evs @ evs')))"

subsection \<open>Initialisation (lines 160-197)\<close>

text \<open>
  One iteration of the loop of lines 174-177 on the two accumulated words
  \<open>(ctrl2, int_ctrl)\<close>; an index outside the descriptor's \<open>sensors\<close> array is \<open>None\<close>.
\<close>

definition init_body :: "sun8i_ths_data \<Rightarrow> nat \<Rightarrow> u32 \<times> u32 \<Rightarrow> (u32 \<times> u32) option" where
  "init_body data i w =
     (case w of (ctrl2, int_ctrl) \<Rightarrow>
        if i < length (sensors (desc data)) then
          Some (ctrl2 OR sense_en (sensors (desc data) ! i),
                int_ctrl OR data_int_en (sensors (desc data) ! i))
        else None)"

function init_loop :: "sun8i_ths_data \<Rightarrow> nat \<Rightarrow> u32 \<times> u32 \<Rightarrow> (u32 \<times> u32) option" where
  "init_loop data i w =
     (if int i < num_sensors (desc data) then
        (case init_body data i w of
           None \<Rightarrow> None
         | Some w' \<Rightarrow> init_loop data (Suc i) w')
      else Some w)"
  by pat_completeness auto
termination
  by (relation "measure (\<lambda>(data, i, w). nat (num_sensors (desc data)) - i)") auto

declare init_loop.simps [simp del]

text \<open>The block of lines 179-191: the calibration words, read from the calibration region.\<close>

definition init_cal :: "io \<Rightarrow> sun8i_ths_data \<Rightarrow> event list" where
  "init_cal io data =
     (if cal_regs data then
        let cal0 = io Cal_regs 0;
            evs0 = Readl Cal_regs 0 cal0 #
                   (if cal0 \<noteq> 0 then [Writel cal0 Regs THS_SUN8I_CDATA01] else [])
        in if has_cal1 (desc data) then
             let cal1 = io Cal_regs 4
             in evs0 @ Readl Cal_regs 4 cal1 #
                  (if cal1 \<noteq> 0 then [Writel cal1 Regs THS_SUN8I_CDATA2] else [])
           else evs0
      else [])"

definition sun8i_ths_init :: "io \<Rightarrow> sun8i_ths_data \<Rightarrow> event list option" where
  "sun8i_ths_init io data =
     (let evs = [Writel (THS_SUN8I_CTRL0_SENSOR_ACQ0 THS_SUN8I_CTRL0_SENSOR_ACQ0_VALUE)
                   Regs THS_SUN8I_CTRL0,
                 Writel (THS_SUN8I_FILTER_EN OR THS_SUN8I_FILTER_TYPE THS_SUN8I_FILTER_TYPE_VALUE)
                   Regs THS_SUN8I_FILTER];
          ctrl2 = 0 OR THS_SUN8I_CTRL2_SENSOR_ACQ1 THS_SUN8I_CTRL2_SENSOR_ACQ1_VALUE;
          int_ctrl = 0 OR THS_SUN8I_INT_CTRL_THERMAL_PER THS_SUN8I_INT_CTRL_THERMAL_PER_VALUE
      in case init_loop data 0 (ctrl2, int_ctrl) of
           None \<Rightarrow> None
         | Some (ctrl2', int_ctrl') \<Rightarrow>
             Some (evs @ init_cal io data @
                   [Writel ctrl2' Regs THS_SUN8I_CTRL2,
                    Writel int_ctrl' Regs THS_SUN8I_INT_CTRL]))"

subsection \<open>The variant descriptors (lines 352-400)\<close>

definition sun8i_ths_h3_sensors :: "sun8i_ths_sensor_desc list" where
  "sun8i_ths_h3_sensors =
     [\<lparr>data_int_en = THS_SUN8I_INT_CTRL_DATA0_IRQ_EN,
       data_int_flag = THS_SUN8I_STAT_DATA0_IRQ_STS,
       data_offset = THS_SUN8I_DATA0,
       sense_en = THS_SUN8I_CTRL2_SENSE_EN0\<rparr>]"

definition sun8i_ths_a83t_sensors :: "sun8i_ths_sensor_desc list" where
  "sun8i_ths_a83t_sensors =
     [\<lparr>data_int_en = THS_SUN8I_INT_CTRL_DATA0_IRQ_EN,
       data_int_flag = THS_SUN8I_STAT_DATA0_IRQ_STS,
       data_offset = THS_SUN8I_DATA0,
       sense_en = THS_SUN8I_CTRL2_SENSE_EN0\<rparr>,
      \<lparr>data_int_en = THS_SUN8I_INT_CTRL_DATA1_IRQ_EN,
       data_int_flag = THS_SUN8I_STAT_DATA1_IRQ_STS,
       data_offset = THS_SUN8I_DATA1,
       sense_en = THS_SUN8I_CTRL2_SENSE_EN1\<rparr>,
      \<lparr>data_int_en = THS_SUN8I_INT_CTRL_DATA2_IRQ_EN,
       data_int_flag = THS_SUN8I_STAT_DATA2_IRQ_STS,
       data_offset = THS_SUN8I_DATA2,
       sense_en = THS_SUN8I_CTRL2_SENSE_EN2\<rparr>]"

text \<open>\<open>ARRAY_SIZE\<close> of an array is its number of elements.\<close>

definition sun8i_ths_h3_desc :: sun8i_ths_desc where
  "sun8i_ths_h3_desc =
     \<lparr>num_sensors = int (length sun8i_ths_h3_sensors),
      sensors = sun8i_ths_h3_sensors,
      calc_temp = sun8i_ths_calc_temp_h3,
      has_cal1 = False\<rparr>"

definition sun8i_ths_a83t_desc :: sun8i_ths_desc where
  "sun8i_ths_a83t_desc =
     \<lparr>num_sensors = int (length sun8i_ths_a83t_sensors),
      sensors = sun8i_ths_a83t_sensors,
      calc_temp = sun8i_ths_calc_temp_a83t,
      has_cal1 = True\<rparr>"

definition sun8i_ths_id_table :: "(string \<times> sun8i_ths_desc) list" where
  "sun8i_ths_id_table =
     [(''allwinner,sun8i-h3-ths'', sun8i_ths_h3_desc),
      (''allwinner,sun8i-a83t-ths'', sun8i_ths_a83t_desc)]"

subsection \<open>The device data after a successful probe (lines 203-327)\<close>

text \<open>
  \<open>devm_kzalloc\<close> zero-fills the structure (line 210), so every \<open>temp\<close> starts at 0;
  line 214 stores the matched descriptor, lines 235-243 map the calibration region when
  the platform has one, and lines 312-324 set only the pointers of \<open>tzds[i]\<close>.
\<close>

definition probe_data :: "sun8i_ths_desc \<Rightarrow> bool \<Rightarrow> sun8i_ths_data" where
  "probe_data d cal =
     \<lparr>cal_regs = cal, desc = d, tzds = replicate SUN8I_THS_MAX_TZDS \<lparr>temp = 0\<rparr>\<rparr>"

subsection \<open>Well-formed device data\<close>

text \<open>
  The loops stay inside the arrays when the descriptor's \<open>num_sensors\<close> exceeds neither
  the length of its \<open>sensors\<close> array nor \<open>SUN8I_THS_MAX_TZDS\<close>, and \<open>tzds\<close> has its
  declared size.
\<close>

definition desc_ok :: "sun8i_ths_desc \<Rightarrow> bool" where
  "desc_ok d \<longleftrightarrow>
     num_sensors d \<le> int (length (sensors d)) \<and> num_sensors d \<le> int SUN8I_THS_MAX_TZDS"

definition data_ok :: "sun8i_ths_data \<Rightarrow> bool" where
  "data_ok data \<longleftrightarrow> desc_ok (desc data) \<and> length (tzds data) = SUN8I_THS_MAX_TZDS"

text \<open>Whether channel \<open>i\<close>'s status bit is set in a status word, and its data register.\<close>

definition flagged :: "sun8i_ths_desc \<Rightarrow> nat \<Rightarrow> u32 \<Rightarrow> bool" where
  "flagged d i status \<longleftrightarrow> status AND data_int_flag (sensors d ! i) \<noteq> 0"

definition sample :: "sun8i_ths_desc \<Rightarrow> nat \<Rightarrow> io \<Rightarrow> u32" where
  "sample d i io = io Regs (data_offset (sensors d ! i))"

text \<open>The events of one loop iteration of the interrupt thread, for stating traces.\<close>

definition chan_events :: "io \<Rightarrow> u32 \<Rightarrow> sun8i_ths_desc \<Rightarrow> nat \<Rightarrow> event list" where
  "chan_events io status d i =
     (if flagged d i status then
        Readl Regs (data_offset (sensors d ! i)) (sample d i io) #
        (if sample d i io \<noteq> 0 then [Thermal_zone_device_update i] else [])
      else [])"

text \<open>Running a loop body over a list of indices, stopping at the first \<open>None\<close>.\<close>

fun iterate :: "(nat \<Rightarrow> 'a \<Rightarrow> 'a option) \<Rightarrow> nat list \<Rightarrow> 'a \<Rightarrow> 'a option" where
  "iterate f [] s = Some s"
| "iterate f (i # is) s = (case f i s of None \<Rightarrow> None | Some s' \<Rightarrow> iterate f is s')"

subsection \<open>Register contents used in the examples\<close>

text \<open>
  \<open>io_regs status d0 d1 d2\<close> shows the given status word and the three data registers
  (every other register reads 0); \<open>io_cal c0 c1\<close> shows the two calibration words.
\<close>

definition io_regs :: "u32 \<Rightarrow> u32 \<Rightarrow> u32 \<Rightarrow> u32 \<Rightarrow> io" where
  "io_regs status d0 d1 d2 m off =
     (if m = Regs then
        (if off = THS_SUN8I_STAT then status
         else if off = THS_SUN8I_DATA0 then d0
         else if off = THS_SUN8I_DATA1 then d1
         else if off = THS_SUN8I_DATA2 then d2
         else 0)
      else 0)"

definition io_cal :: "u32 \<Rightarrow> u32 \<Rightarrow> io" where
  "io_cal c0 c1 m off =
     (if m = Cal_regs then (if off = 0 then c0 else if off = 4 then c1 else 0) else 0)"

section \<open>Properties of the temperature conversion\<close>

lemma calc_quotient:
  fixes raw :: u32 and d :: u64
  shows "uint ((ucast raw :: u64) * 1000000 div d) = uint raw * 1000000 div uint d"
proof -
  have r: "uint raw < 2 ^ 32" using uint_lt2p [of raw] by simp
  have u: "uint (ucast raw :: u64) = uint raw"
    using r by (simp add: unsigned_ucast_eq take_bit_int_eq_self)
  have "uint raw * 1000000 < 2 ^ 64" using r by simp
  then have m: "uint ((ucast raw :: u64) * 1000000) = uint raw * 1000000"
    by (simp add: uint_word_ariths u take_bit_int_eq_self flip: take_bit_eq_mod)
  show ?thesis
    by (simp only: uint_div m)
qed

lemma calc_narrow:
  fixes t :: u64 and c :: int
  assumes "uint t < 2 ^ 31" and "0 \<le> c" and "c < 2 ^ 31"
  shows "sint ((word_of_int c :: s32) - (ucast t :: s32)) = c - uint t"
proof -
  define u where "u = uint t"
  have u0: "0 \<le> u" by (simp add: u_def)
  have u1: "u < 2 ^ 31" using assms(1) by (simp add: u_def)
  have s: "sint (ucast t :: s32) = u"
    unfolding u_def [symmetric] signed_ucast_eq
    using u0 u1 by (simp add: signed_take_bit_int_eq_self)
  have k: "sint (word_of_int c :: s32) = c"
    using assms(2,3) by (simp add: sint_sbintrunc' signed_take_bit_int_eq_self)
  have "- (2 ^ 31) \<le> c - u" "c - u < 2 ^ 31"
    using assms(2,3) u0 u1 by simp_all
  then have "sint ((word_of_int c :: s32) - (ucast t :: s32)) = c - u"
    by (simp add: sint_word_diff s k signed_take_bit_int_eq_self)
  then show ?thesis by (simp add: u_def)
qed

lemma calc_temp_h3_exact:
  assumes "uint raw * 1000000 div 8253 < 2 ^ 31"
  shows "sint (sun8i_ths_calc_temp_h3 raw) = 217000 - uint raw * 1000000 div 8253"
proof -
  have "uint ((ucast raw :: u64) * 1000000 div 8253) < 2 ^ 31"
    using assms calc_quotient [of raw 8253] by simp
  from calc_narrow [OF this, of 217000] show ?thesis
    using calc_quotient [of raw 8253] by (simp add: sun8i_ths_calc_temp_h3_def)
qed

lemma calc_temp_a83t_exact:
  assumes "uint raw * 1000000 div 14186 < 2 ^ 31"
  shows "sint (sun8i_ths_calc_temp_a83t raw) = 192000 - uint raw * 1000000 div 14186"
proof -
  have "uint ((ucast raw :: u64) * 1000000 div 14186) < 2 ^ 31"
    using assms calc_quotient [of raw 14186] by simp
  from calc_narrow [OF this, of 192000] show ?thesis
    using calc_quotient [of raw 14186] by (simp add: sun8i_ths_calc_temp_a83t_def)
qed

lemma quotient_strict_mono:
  fixes a b d :: int
  assumes "a < b" "0 < d" "d \<le> 1000000"
  shows "a * 1000000 div d < b * 1000000 div d"
proof -
  have "a * 1000000 + d \<le> b * 1000000" using assms by simp
  then have "(a * 1000000 + d) div d \<le> b * 1000000 div d"
    by (rule zdiv_mono1) (use assms in simp)
  moreover have "(a * 1000000 + d) div d = a * 1000000 div d + 1"
    by (rule div_add_self2) (use assms in simp)
  ultimately show ?thesis by simp
qed

lemma quotient_bound_h3: "(x::int) \<le> 17723182 \<longleftrightarrow> x * 1000000 div 8253 < 2 ^ 31"
  by simp arith

lemma quotient_bound_a83t: "(x::int) \<le> 30464203 \<longleftrightarrow> x * 1000000 div 14186 < 2 ^ 31"
  by simp arith

text \<open>
  The linear formula read over the integers fails for large register values: the
  quotient of \<open>0xFFFFFFFF\<close> does not fit the \<open>int\<close> it is narrowed to.
\<close>

theorem calc_temp_formula_counterexample:
  "sint (calc_temp sun8i_ths_h3_desc 0xFFFFFFFF)
     \<noteq> 217000 - uint (0xFFFFFFFF :: u32) * 1000000 div 8253"
  by (simp add: sun8i_ths_h3_desc_def sun8i_ths_calc_temp_h3_def)

text \<open>
  Claim C2 (amended). Each descriptor binds exactly one conversion function. For every
  raw value whose quotient is below \<open>2^31\<close> (raw at most 17723182 for the H3 formula,
  at most 30464203 for the A83T formula, so every 12-bit sample), the H3 conversion
  returns \<open>217000 - raw * 1000000 div 8253\<close> and the A83T conversion returns
  \<open>192000 - raw * 1000000 div 14186\<close>, the division truncating.
\<close>

theorem calc_temp_formula:
  "calc_temp sun8i_ths_h3_desc = sun8i_ths_calc_temp_h3 \<and>
   calc_temp sun8i_ths_a83t_desc = sun8i_ths_calc_temp_a83t \<and>
   (uint raw \<le> 17723182 \<longrightarrow>
      sint (sun8i_ths_calc_temp_h3 raw) = 217000 - uint raw * 1000000 div 8253) \<and>
   (uint raw \<le> 30464203 \<longrightarrow>
      sint (sun8i_ths_calc_temp_a83t raw) = 192000 - uint raw * 1000000 div 14186)"
  using calc_temp_h3_exact [of raw] calc_temp_a83t_exact [of raw]
    quotient_bound_h3 [of "uint raw"] quotient_bound_a83t [of "uint raw"]
  by (simp add: sun8i_ths_h3_desc_def sun8i_ths_a83t_desc_def)

text \<open>The formulas at the largest raw values they cover, and at the 12-bit maximum.\<close>

theorem calc_temp_formula_witness:
  "sint (sun8i_ths_calc_temp_h3 17723182) = 217000 - 17723182 * 1000000 div 8253 \<and>
   sint (sun8i_ths_calc_temp_h3 17723182) = - 2147266581 \<and>
   sint (sun8i_ths_calc_temp_a83t 30464203) = 192000 - 30464203 * 1000000 div 14186 \<and>
   sint (sun8i_ths_calc_temp_a83t 0xFFF) = - 96664"
  using calc_temp_formula [of 17723182] calc_temp_formula [of 30464203]
    calc_temp_formula [of "0xFFF"]
  by simp

text \<open>
  Monotonicity fails over all 32-bit raw values: a large raw value converts to
  more than raw value 0 does, for both formulas.
\<close>

theorem calc_temp_monotone_counterexample:
  "(0 :: u32) < 25000000 \<and>
   sint (sun8i_ths_calc_temp_h3 0) < sint (sun8i_ths_calc_temp_h3 25000000) \<and>
   sint (sun8i_ths_calc_temp_a83t 0) < sint (sun8i_ths_calc_temp_a83t 40000000)"
  by (simp add: sun8i_ths_calc_temp_h3_def sun8i_ths_calc_temp_a83t_def)

text \<open>
  Claim C7 (amended). For both conversion functions and all raw values \<open>r1 < r2\<close>
  with \<open>r2\<close> in the range where the quotient is below \<open>2^31\<close> (at most 17723182 for
  H3, at most 30464203 for A83T), the conversion of \<open>r1\<close> is strictly greater than
  the conversion of \<open>r2\<close>.
\<close>

theorem calc_temp_monotone:
  "(r1 < r2 \<and> uint r2 \<le> 17723182 \<longrightarrow>
      sint (sun8i_ths_calc_temp_h3 r2) < sint (sun8i_ths_calc_temp_h3 r1)) \<and>
   (r1 < r2 \<and> uint r2 \<le> 30464203 \<longrightarrow>
      sint (sun8i_ths_calc_temp_a83t r2) < sint (sun8i_ths_calc_temp_a83t r1))"
proof (intro conjI impI)
  assume a: "r1 < r2 \<and> uint r2 \<le> 17723182"
  then have lt: "uint r1 < uint r2" by (simp add: word_less_def)
  then have b1: "uint r1 \<le> 17723182" using a by simp
  have "uint r1 * 1000000 div 8253 < uint r2 * 1000000 div 8253"
    by (rule quotient_strict_mono [OF lt]) simp_all
  moreover have "sint (sun8i_ths_calc_temp_h3 r1) = 217000 - uint r1 * 1000000 div 8253"
    using b1 calc_temp_h3_exact [of r1] quotient_bound_h3 [of "uint r1"] by simp
  moreover have "sint (sun8i_ths_calc_temp_h3 r2) = 217000 - uint r2 * 1000000 div 8253"
    using a calc_temp_h3_exact [of r2] quotient_bound_h3 [of "uint r2"] by simp
  ultimately show "sint (sun8i_ths_calc_temp_h3 r2) < sint (sun8i_ths_calc_temp_h3 r1)"
    by simp
next
  assume a: "r1 < r2 \<and> uint r2 \<le> 30464203"
  then have lt: "uint r1 < uint r2" by (simp add: word_less_def)
  then have b1: "uint r1 \<le> 30464203" using a by simp
  have "uint r1 * 1000000 div 14186 < uint r2 * 1000000 div 14186"
    by (rule quotient_strict_mono [OF lt]) simp_all
  moreover have "sint (sun8i_ths_calc_temp_a83t r1) = 192000 - uint r1 * 1000000 div 14186"
    using b1 calc_temp_a83t_exact [of r1] quotient_bound_a83t [of "uint r1"] by simp
  moreover have "sint (sun8i_ths_calc_temp_a83t r2) = 192000 - uint r2 * 1000000 div 14186"
    using a calc_temp_a83t_exact [of r2] quotient_bound_a83t [of "uint r2"] by simp
  ultimately show "sint (sun8i_ths_calc_temp_a83t r2) < sint (sun8i_ths_calc_temp_a83t r1)"
    by simp
qed

text \<open>Two neighbouring raw values for each formula.\<close>

theorem calc_temp_monotone_witness:
  "sint (sun8i_ths_calc_temp_h3 0x5DC0) < sint (sun8i_ths_calc_temp_h3 0x5DBF) \<and>
   sint (sun8i_ths_calc_temp_a83t 30464203) < sint (sun8i_ths_calc_temp_a83t 30464202)"
  using calc_temp_monotone [of "0x5DBF" "0x5DC0"] calc_temp_monotone [of 30464202 30464203]
  by simp

text \<open>The value at raw 24000 is not \<open>217000 - 2907372\<close>.\<close>

theorem calc_temp_h3_24000_counterexample:
  "sint (sun8i_ths_calc_temp_h3 0x5DC0) \<noteq> 217000 - 2907372"
  by (simp add: sun8i_ths_calc_temp_h3_def)

text \<open>
  Claim C8 (amended). For the H3 conversion at raw \<open>0x5DC0\<close> (24000) the result is
  217000 minus the truncating quotient of 24000000000 by 8253; that quotient is
  2908033, so the result is \<open>-2691033\<close>.
\<close>

theorem calc_temp_h3_24000:
  "sint (sun8i_ths_calc_temp_h3 0x5DC0) = 217000 - 24000000000 div 8253 \<and>
   (24000000000 :: int) div 8253 = 2908033 \<and>
   sint (sun8i_ths_calc_temp_h3 0x5DC0) = - 2691033"
  by (simp add: sun8i_ths_calc_temp_h3_def)


section \<open>Properties of the interrupt thread\<close>

lemma irq_body_char:
  assumes "data_ok data" and "int i < num_sensors (desc data)"
  shows "\<exists>data'. irq_body io status i (data, evs)
             = Some (data', evs @ chan_events io status (desc data) i) \<and>
           desc data' = desc data \<and> cal_regs data' = cal_regs data \<and>
           length (tzds data') = length (tzds data) \<and>
           (\<forall>j. temp (tzds data' ! j) =
                (if j = i \<and> flagged (desc data) i status then sample (desc data) i io
                 else temp (tzds data ! j)))"
proof -
  have i1: "i < length (tzds data)" and i2: "i < length (sensors (desc data))"
    using assms by (simp_all add: data_ok_def desc_ok_def)
  show ?thesis
  proof (cases "flagged (desc data) i status")
    case True
    then show ?thesis
      using i1 i2
      by (simp add: irq_body_def chan_events_def flagged_def sample_def Let_def
          nth_list_update)
  next
    case False
    then show ?thesis
      using i1 i2
      by (simp add: irq_body_def chan_events_def flagged_def sample_def Let_def)
  qed
qed

lemma irq_loop_char:
  assumes "data_ok data"
  shows "\<exists>data'. irq_loop io status i (data, evs)
             = Some (data', evs @ concat (map (chan_events io status (desc data))
                                       [i..<nat (num_sensors (desc data))])) \<and>
           desc data' = desc data \<and> cal_regs data' = cal_regs data \<and>
           length (tzds data') = length (tzds data) \<and>
           (\<forall>j. temp (tzds data' ! j) =
                (if i \<le> j \<and> int j < num_sensors (desc data) \<and> flagged (desc data) j status
                 then sample (desc data) j io else temp (tzds data ! j)))"
  using assms
proof (induction "nat (num_sensors (desc data)) - i" arbitrary: i data evs)
  case 0
  then have ge: "\<not> int i < num_sensors (desc data)" by simp
  then have "[i..<nat (num_sensors (desc data))] = []" by simp
  moreover have "\<And>j. i \<le> j \<Longrightarrow> \<not> int j < num_sensors (desc data)"
    using ge by linarith
  ultimately show ?case using ge by (auto simp: irq_loop.simps)
next
  case (Suc k)
  let ?d = "desc data"
  have lt: "int i < num_sensors ?d" using Suc.hyps(2) by simp
  obtain data1 where
    b: "irq_body io status i (data, evs) = Some (data1, evs @ chan_events io status ?d i)"
    and d1: "desc data1 = ?d" and c1: "cal_regs data1 = cal_regs data"
    and l1: "length (tzds data1) = length (tzds data)"
    and t1: "\<And>j. temp (tzds data1 ! j) =
                (if j = i \<and> flagged ?d i status then sample ?d i io else temp (tzds data ! j))"
    using irq_body_char [OF Suc.prems lt, of io status evs] by blast
  have ok1: "data_ok data1" using Suc.prems d1 l1 by (simp add: data_ok_def)
  have k: "k = nat (num_sensors (desc data1)) - Suc i" using Suc.hyps(2) d1 by simp
  obtain data' where
    l: "irq_loop io status (Suc i) (data1, evs @ chan_events io status ?d i)
          = Some (data', (evs @ chan_events io status ?d i) @
                    concat (map (chan_events io status ?d) [Suc i..<nat (num_sensors ?d)]))"
    and d2: "desc data' = ?d" and c2: "cal_regs data' = cal_regs data"
    and l2: "length (tzds data') = length (tzds data)"
    and t2: "\<And>j. temp (tzds data' ! j) =
                (if Suc i \<le> j \<and> int j < num_sensors ?d \<and> flagged ?d j status
                 then sample ?d j io else temp (tzds data1 ! j))"
    using Suc.hyps(1) [OF k ok1, of "evs @ chan_events io status ?d i"] d1 c1 l1 by auto
  have u: "[i..<nat (num_sensors ?d)] = i # [Suc i..<nat (num_sensors ?d)]"
    using lt by (simp add: upt_conv_Cons)
  have "irq_loop io status i (data, evs)
          = Some (data', evs @ concat (map (chan_events io status ?d) [i..<nat (num_sensors ?d)]))"
    using lt b l by (simp add: irq_loop.simps [of io status i data evs] u)
  moreover have "temp (tzds data' ! j) =
                (if i \<le> j \<and> int j < num_sensors ?d \<and> flagged ?d j status
                 then sample ?d j io else temp (tzds data ! j))" for j
  proof (cases "j = i")
    case True
    then show ?thesis using lt by (simp add: t1 t2)
  next
    case False
    then have "Suc i \<le> j \<longleftrightarrow> i \<le> j" by auto
    then show ?thesis using False by (simp add: t1 t2)
  qed
  ultimately show ?case using d2 c2 l2 by simp
qed

lemma irq_thread_char:
  assumes "data_ok data"
  shows "\<exists>data'. sun8i_ths_irq_thread io data
             = Some (data', Readl Regs THS_SUN8I_STAT (io Regs THS_SUN8I_STAT) #
                            Writel THS_SUN8I_STAT_CLEAR Regs THS_SUN8I_STAT #
                            concat (map (chan_events io (io Regs THS_SUN8I_STAT) (desc data))
                                        [0..<nat (num_sensors (desc data))])) \<and>
           data_ok data' \<and> desc data' = desc data \<and> cal_regs data' = cal_regs data \<and>
           (\<forall>j. temp (tzds data' ! j) =
                (if int j < num_sensors (desc data) \<and>
                    flagged (desc data) j (io Regs THS_SUN8I_STAT)
                 then sample (desc data) j io else temp (tzds data ! j)))"
proof -
  obtain data' where
    "irq_loop io (io Regs THS_SUN8I_STAT) 0
        (data, [Readl Regs THS_SUN8I_STAT (io Regs THS_SUN8I_STAT),
                Writel THS_SUN8I_STAT_CLEAR Regs THS_SUN8I_STAT])
      = Some (data', [Readl Regs THS_SUN8I_STAT (io Regs THS_SUN8I_STAT),
                      Writel THS_SUN8I_STAT_CLEAR Regs THS_SUN8I_STAT] @
                     concat (map (chan_events io (io Regs THS_SUN8I_STAT) (desc data))
                                 [0..<nat (num_sensors (desc data))]))"
    and "desc data' = desc data" and "cal_regs data' = cal_regs data"
    and "length (tzds data') = length (tzds data)"
    and "\<And>j. temp (tzds data' ! j) =
                (if 0 \<le> j \<and> int j < num_sensors (desc data) \<and>
                    flagged (desc data) j (io Regs THS_SUN8I_STAT)
                 then sample (desc data) j io else temp (tzds data ! j))"
    using irq_loop_char [OF assms, of io "io Regs THS_SUN8I_STAT" 0] by blast
  then show ?thesis
    using assms by (simp add: sun8i_ths_irq_thread_def Let_def data_ok_def)
qed

lemma irq_run_invariant:
  assumes "data_ok data" and "P (temp (tzds data ! i))"
    and "\<forall>io\<in>set ios. flagged (desc data) i (io Regs THS_SUN8I_STAT)
            \<longrightarrow> P (sample (desc data) i io)"
  shows "\<exists>data' evs. irq_run ios data = Some (data', evs) \<and> data_ok data' \<and>
           desc data' = desc data \<and> P (temp (tzds data' ! i))"
  using assms
proof (induction ios arbitrary: data)
  case Nil
  then show ?case by simp
next
  case (Cons io ios)
  let ?d = "desc data"
  obtain data1 evs1 where
    s: "sun8i_ths_irq_thread io data = Some (data1, evs1)"
    and ok1: "data_ok data1" and d1: "desc data1 = ?d"
    and t1: "\<And>j. temp (tzds data1 ! j) =
                (if int j < num_sensors ?d \<and> flagged ?d j (io Regs THS_SUN8I_STAT)
                 then sample ?d j io else temp (tzds data ! j))"
    using irq_thread_char [OF Cons.prems(1), of io] by blast
  have p1: "P (temp (tzds data1 ! i))"
    using Cons.prems(2,3) by (simp add: t1)
  have "\<forall>io\<in>set ios. flagged (desc data1) i (io Regs THS_SUN8I_STAT)
            \<longrightarrow> P (sample (desc data1) i io)"
    using Cons.prems(3) d1 by simp
  from Cons.IH [OF ok1 p1 this] obtain data' evs' where
    "irq_run ios data1 = Some (data', evs')" "data_ok data'" "desc data' = desc data1"
    "P (temp (tzds data' ! i))" by blast
  then show ?case using s d1 by simp
qed

lemma update_in_chan_events:
  "Thermal_zone_device_update i \<in> set (chan_events io status d j)
     \<longleftrightarrow> j = i \<and> flagged d i status \<and> sample d i io \<noteq> 0"
  by (auto simp: chan_events_def)

lemma chan_events_no_write:
  "e \<in> set (chan_events io status d j) \<Longrightarrow> \<not> is_write e"
  by (auto simp: chan_events_def split: if_splits)

lemma chan_events_readl:
  "e \<in> set (chan_events io status d j) \<Longrightarrow> is_readl m off e
     \<Longrightarrow> m = Regs \<and> off = data_offset (sensors d ! j)"
  by (auto simp: chan_events_def split: if_splits)

lemma probe_data_ok: "desc_ok d \<Longrightarrow> data_ok (probe_data d cal)"
  by (simp add: data_ok_def probe_data_def)

lemma h3_desc_ok: "desc_ok sun8i_ths_h3_desc"
  by (simp add: desc_ok_def sun8i_ths_h3_desc_def sun8i_ths_h3_sensors_def
      SUN8I_THS_MAX_TZDS_def)

lemma a83t_desc_ok: "desc_ok sun8i_ths_a83t_desc"
  by (simp add: desc_ok_def sun8i_ths_a83t_desc_def sun8i_ths_a83t_sensors_def
      SUN8I_THS_MAX_TZDS_def)

subsection \<open>Readback\<close>

text \<open>
  Claim C1. \<open>sun8i_ths_get_temp\<close> returns \<open>-EBUSY\<close> exactly when the channel's
  latched \<open>temp\<close> is 0, and otherwise returns the descriptor's \<open>calc_temp\<close> of it.
  After a successful probe, and after any sequence of interrupt-thread invocations none
  of which delivered a nonzero sample to channel \<open>i\<close> (whenever its status bit was set,
  its data register read 0), it returns \<open>-EBUSY\<close> for channel \<open>i\<close>.
\<close>

theorem get_temp_unavailable_iff_zero:
  "(sun8i_ths_get_temp data tzd = Inl EBUSY \<longleftrightarrow> temp tzd = 0) \<and>
   (temp tzd \<noteq> 0 \<longrightarrow>
      sun8i_ths_get_temp data tzd = Inr (calc_temp (desc data) (temp tzd))) \<and>
   (desc_ok d \<and> int i < num_sensors d \<and>
    (\<forall>io\<in>set ios. flagged d i (io Regs THS_SUN8I_STAT) \<longrightarrow> sample d i io = 0) \<longrightarrow>
      (\<exists>data' evs. irq_run ios (probe_data d cal) = Some (data', evs) \<and>
         sun8i_ths_get_temp data' (tzds data' ! i) = Inl EBUSY))"
proof (intro conjI impI)
  show "sun8i_ths_get_temp data tzd = Inl EBUSY \<longleftrightarrow> temp tzd = 0"
    by (simp add: sun8i_ths_get_temp_def)
next
  assume "temp tzd \<noteq> 0"
  then show "sun8i_ths_get_temp data tzd = Inr (calc_temp (desc data) (temp tzd))"
    by (simp add: sun8i_ths_get_temp_def)
next
  assume a: "desc_ok d \<and> int i < num_sensors d \<and>
    (\<forall>io\<in>set ios. flagged d i (io Regs THS_SUN8I_STAT) \<longrightarrow> sample d i io = 0)"
  then have ok: "data_ok (probe_data d cal)" by (simp add: probe_data_ok)
  have "i < SUN8I_THS_MAX_TZDS" using a by (simp add: desc_ok_def)
  then have z: "temp (tzds (probe_data d cal) ! i) = 0" by (simp add: probe_data_def)
  have "\<forall>io\<in>set ios. flagged (desc (probe_data d cal)) i (io Regs THS_SUN8I_STAT)
          \<longrightarrow> sample (desc (probe_data d cal)) i io = 0"
    using a by (simp add: probe_data_def)
  from irq_run_invariant [where P = "\<lambda>t. t = 0", OF ok z this]
  show "\<exists>data' evs. irq_run ios (probe_data d cal) = Some (data', evs) \<and>
         sun8i_ths_get_temp data' (tzds data' ! i) = Inl EBUSY"
    by (auto simp: sun8i_ths_get_temp_def)
qed

text \<open>The definitions unfolded when the model is run on concrete register contents.\<close>

lemmas eval_defs =
  irq_loop.simps irq_body_def sun8i_ths_irq_thread_def probe_data_def
  sun8i_ths_a83t_desc_def sun8i_ths_a83t_sensors_def
  sun8i_ths_h3_desc_def sun8i_ths_h3_sensors_def
  io_regs_def io_cal_def flagged_def sample_def Let_def BIT_def
  THS_SUN8I_STAT_def THS_SUN8I_DATA0_def THS_SUN8I_DATA1_def THS_SUN8I_DATA2_def
  THS_SUN8I_STAT_DATA0_IRQ_STS_def THS_SUN8I_STAT_DATA1_IRQ_STS_def
  THS_SUN8I_STAT_DATA2_IRQ_STS_def THS_SUN8I_INT_CTRL_DATA0_IRQ_EN_def
  THS_SUN8I_INT_CTRL_DATA1_IRQ_EN_def THS_SUN8I_INT_CTRL_DATA2_IRQ_EN_def
  THS_SUN8I_CTRL2_SENSE_EN0_def THS_SUN8I_CTRL2_SENSE_EN1_def THS_SUN8I_CTRL2_SENSE_EN2_def
  THS_SUN8I_STAT_CLEAR_def SUN8I_THS_MAX_TZDS_def

text \<open>
  On the A83T: a latched \<open>0x1000\<close> is converted; channel 1 stays unavailable after an
  interrupt for channels 0 and 2 and a second one that delivers a zero sample to it.
\<close>

theorem get_temp_unavailable_iff_zero_witness:
  "sun8i_ths_get_temp (probe_data sun8i_ths_a83t_desc False) \<lparr>temp = 0x1000\<rparr>
     = Inr (sun8i_ths_calc_temp_a83t 0x1000) \<and>
   (\<exists>data' evs.
      irq_run [io_regs 0x500 0x1000 0 0x2000, io_regs 0x200 0 0 0]
        (probe_data sun8i_ths_a83t_desc False) = Some (data', evs) \<and>
      sun8i_ths_get_temp data' (tzds data' ! 1) = Inl EBUSY)"
  using get_temp_unavailable_iff_zero
    [of "probe_data sun8i_ths_a83t_desc False" "\<lparr>temp = 0x1000\<rparr>" sun8i_ths_a83t_desc 1
        "[io_regs 0x500 0x1000 0 0x2000, io_regs 0x200 0 0 0]" False]
    a83t_desc_ok
  by (simp add: eval_defs)


subsection \<open>Per-channel state\<close>

text \<open>
  Claim C3 (amended). Every channel starts with \<open>temp = 0\<close> (unavailable). One
  invocation of the interrupt thread changes a channel's \<open>temp\<close> only if the channel's
  status bit is set, and then to the value read from its data register, so the channel
  is available afterwards exactly when that value is nonzero; the channel's zone is
  notified in that invocation exactly when its status bit is set and the value read is
  nonzero, so a latched zero makes the channel unavailable again without a
  notification. An available channel therefore stays available under every sequence of
  invocations in which each sample latched for it is nonzero.
\<close>

theorem channel_state_transitions:
  assumes "data_ok data" and "int i < num_sensors (desc data)"
  shows "temp (tzds (probe_data (desc data) cal) ! i) = 0 \<and>
    (\<exists>data' evs. sun8i_ths_irq_thread io data = Some (data', evs) \<and>
       temp (tzds data' ! i) =
         (if flagged (desc data) i (io Regs THS_SUN8I_STAT) then sample (desc data) i io
          else temp (tzds data ! i)) \<and>
       (Thermal_zone_device_update i \<in> set evs \<longleftrightarrow>
          flagged (desc data) i (io Regs THS_SUN8I_STAT) \<and> sample (desc data) i io \<noteq> 0)) \<and>
    (temp (tzds data ! i) \<noteq> 0 \<and>
     (\<forall>io\<in>set ios. flagged (desc data) i (io Regs THS_SUN8I_STAT)
         \<longrightarrow> sample (desc data) i io \<noteq> 0) \<longrightarrow>
       (\<exists>data' evs. irq_run ios data = Some (data', evs) \<and> temp (tzds data' ! i) \<noteq> 0))"
proof (intro conjI impI)
  have "i < SUN8I_THS_MAX_TZDS" using assms by (simp add: data_ok_def desc_ok_def)
  then show "temp (tzds (probe_data (desc data) cal) ! i) = 0"
    by (simp add: probe_data_def)
next
  let ?d = "desc data" and ?status = "io Regs THS_SUN8I_STAT"
  obtain data' where
    s: "sun8i_ths_irq_thread io data
          = Some (data', Readl Regs THS_SUN8I_STAT ?status #
                         Writel THS_SUN8I_STAT_CLEAR Regs THS_SUN8I_STAT #
                         concat (map (chan_events io ?status ?d) [0..<nat (num_sensors ?d)]))"
    and t: "\<And>j. temp (tzds data' ! j) =
                (if int j < num_sensors ?d \<and> flagged ?d j ?status
                 then sample ?d j io else temp (tzds data ! j))"
    using irq_thread_char [OF assms(1), of io] by blast
  have t': "temp (tzds data' ! i) =
         (if flagged ?d i ?status then sample ?d i io else temp (tzds data ! i))"
    using assms(2) by (simp add: t)
  have i: "i < nat (num_sensors ?d)"
    using assms(2) by (simp add: zless_nat_eq_int_zless)
  have "Thermal_zone_device_update i
      \<in> set (concat (map (chan_events io ?status ?d) [0..<nat (num_sensors ?d)]))
    \<longleftrightarrow> flagged ?d i ?status \<and> sample ?d i io \<noteq> 0"
    using i by (auto simp: update_in_chan_events)
  then have "Thermal_zone_device_update i
      \<in> set (Readl Regs THS_SUN8I_STAT ?status #
               Writel THS_SUN8I_STAT_CLEAR Regs THS_SUN8I_STAT #
               concat (map (chan_events io ?status ?d) [0..<nat (num_sensors ?d)]))
    \<longleftrightarrow> flagged ?d i ?status \<and> sample ?d i io \<noteq> 0"
    by simp
  with s t' show "\<exists>data' evs. sun8i_ths_irq_thread io data = Some (data', evs) \<and>
       temp (tzds data' ! i) =
         (if flagged ?d i ?status then sample ?d i io else temp (tzds data ! i)) \<and>
       (Thermal_zone_device_update i \<in> set evs \<longleftrightarrow>
          flagged ?d i ?status \<and> sample ?d i io \<noteq> 0)"
    by blast
next
  assume a: "temp (tzds data ! i) \<noteq> 0 \<and>
     (\<forall>io\<in>set ios. flagged (desc data) i (io Regs THS_SUN8I_STAT)
         \<longrightarrow> sample (desc data) i io \<noteq> 0)"
  then have nz: "temp (tzds data ! i) \<noteq> 0"
    and s: "\<forall>io\<in>set ios. flagged (desc data) i (io Regs THS_SUN8I_STAT)
         \<longrightarrow> sample (desc data) i io \<noteq> 0"
    by simp_all
  from irq_run_invariant [where P = "\<lambda>t. t \<noteq> 0", OF assms(1) nz s]
  show "\<exists>data' evs. irq_run ios data = Some (data', evs) \<and> temp (tzds data' ! i) \<noteq> 0"
    by blast
qed

text \<open>
  On the A83T with channel 0 available: a zero sample latches 0 and is not notified; a
  nonzero sample is latched and notified; a nonzero sample followed by an interrupt for
  channel 2 only leaves the channel available.
\<close>

theorem channel_state_transitions_witness:
  "temp (tzds (probe_data sun8i_ths_a83t_desc False) ! 0) = 0 \<and>
   (\<exists>data' evs.
      sun8i_ths_irq_thread (io_regs 0x100 0 0 0)
        \<lparr>cal_regs = False, desc = sun8i_ths_a83t_desc,
         tzds = [\<lparr>temp = 0x1000\<rparr>, \<lparr>temp = 0\<rparr>, \<lparr>temp = 0x2000\<rparr>]\<rparr> = Some (data', evs) \<and>
      temp (tzds data' ! 0) = 0 \<and> Thermal_zone_device_update 0 \<notin> set evs) \<and>
   (\<exists>data' evs.
      sun8i_ths_irq_thread (io_regs 0x100 0x1234 0 0)
        \<lparr>cal_regs = False, desc = sun8i_ths_a83t_desc,
         tzds = [\<lparr>temp = 0x1000\<rparr>, \<lparr>temp = 0\<rparr>, \<lparr>temp = 0x2000\<rparr>]\<rparr> = Some (data', evs) \<and>
      temp (tzds data' ! 0) = 0x1234 \<and> Thermal_zone_device_update 0 \<in> set evs) \<and>
   (\<exists>data' evs.
      irq_run [io_regs 0x100 0x1234 0 0, io_regs 0x400 0 0 0x2345]
        \<lparr>cal_regs = False, desc = sun8i_ths_a83t_desc,
         tzds = [\<lparr>temp = 0x1000\<rparr>, \<lparr>temp = 0\<rparr>, \<lparr>temp = 0x2000\<rparr>]\<rparr> = Some (data', evs) \<and>
      temp (tzds data' ! 0) \<noteq> 0)"
proof -
  let ?data = "\<lparr>cal_regs = False, desc = sun8i_ths_a83t_desc,
         tzds = [\<lparr>temp = 0x1000\<rparr>, \<lparr>temp = 0\<rparr>, \<lparr>temp = 0x2000\<rparr>]\<rparr>"
  have ok: "data_ok ?data"
    using a83t_desc_ok by (simp add: data_ok_def SUN8I_THS_MAX_TZDS_def)
  have lt: "int 0 < num_sensors (desc ?data)"
    by (simp add: sun8i_ths_a83t_desc_def sun8i_ths_a83t_sensors_def)
  show ?thesis
    using channel_state_transitions [OF ok lt, of False "io_regs 0x100 0 0 0"
        "[io_regs 0x100 0x1234 0 0, io_regs 0x400 0 0 0x2345]"]
      channel_state_transitions [OF ok lt, of False "io_regs 0x100 0x1234 0 0" "[]"]
    by (simp add: eval_defs)
qed

text \<open>
  A channel that has become available does return to unavailable: after probe, a first
  interrupt latches \<open>0x1000\<close> into channel 0, a second one with the status bit set and
  the data register reading 0 stores 0 (and does not notify).
\<close>

theorem channel_returns_to_unavailable_counterexample:
  "irq_run [io_regs 0x100 0x1000 0 0] (probe_data sun8i_ths_a83t_desc False)
     = Some (\<lparr>cal_regs = False, desc = sun8i_ths_a83t_desc,
              tzds = [\<lparr>temp = 0x1000\<rparr>, \<lparr>temp = 0\<rparr>, \<lparr>temp = 0\<rparr>]\<rparr>,
             [Readl Regs 0x48 0x100, Writel 0x777 Regs 0x48,
              Readl Regs 0x80 0x1000, Thermal_zone_device_update 0]) \<and>
   irq_run [io_regs 0x100 0x1000 0 0, io_regs 0x100 0 0 0]
       (probe_data sun8i_ths_a83t_desc False)
     = Some (\<lparr>cal_regs = False, desc = sun8i_ths_a83t_desc,
              tzds = [\<lparr>temp = 0\<rparr>, \<lparr>temp = 0\<rparr>, \<lparr>temp = 0\<rparr>]\<rparr>,
             [Readl Regs 0x48 0x100, Writel 0x777 Regs 0x48,
              Readl Regs 0x80 0x1000, Thermal_zone_device_update 0,
              Readl Regs 0x48 0x100, Writel 0x777 Regs 0x48,
              Readl Regs 0x80 0])"
  by (simp add: eval_defs numeral_3_eq_3)

subsection \<open>Channel independence\<close>

text \<open>
  Claim C4. In every invocation of the interrupt thread, a channel whose status bit is
  not set in the status word read at the start (or that the descriptor does not
  define) keeps its \<open>temp\<close>, and \<open>thermal_zone_device_update\<close> is not called for it.
\<close>

theorem unflagged_channel_untouched:
  assumes "data_ok data"
    and "\<not> (int i < num_sensors (desc data) \<and> flagged (desc data) i (io Regs THS_SUN8I_STAT))"
  shows "\<exists>data' evs. sun8i_ths_irq_thread io data = Some (data', evs) \<and>
           temp (tzds data' ! i) = temp (tzds data ! i) \<and>
           Thermal_zone_device_update i \<notin> set evs"
proof -
  let ?d = "desc data" and ?status = "io Regs THS_SUN8I_STAT"
  obtain data' where
    s: "sun8i_ths_irq_thread io data
          = Some (data', Readl Regs THS_SUN8I_STAT ?status #
                         Writel THS_SUN8I_STAT_CLEAR Regs THS_SUN8I_STAT #
                         concat (map (chan_events io ?status ?d) [0..<nat (num_sensors ?d)]))"
    and t: "\<And>j. temp (tzds data' ! j) =
                (if int j < num_sensors ?d \<and> flagged ?d j ?status
                 then sample ?d j io else temp (tzds data ! j))"
    using irq_thread_char [OF assms(1), of io] by blast
  have "temp (tzds data' ! i) = temp (tzds data ! i)"
    using assms(2) t [of i] by auto
  moreover have "Thermal_zone_device_update i
      \<notin> set (concat (map (chan_events io ?status ?d) [0..<nat (num_sensors ?d)]))"
    using assms(2) by (auto simp: update_in_chan_events)
  ultimately show ?thesis using s by simp
qed

text \<open>
  An interrupt with only channel 0's status bit set, on the A83T: channels 1 and 2 keep
  their values although their data registers read nonzero.
\<close>

theorem unflagged_channel_untouched_witness:
  "(\<exists>data' evs.
      sun8i_ths_irq_thread (io_regs 0x100 0x1000 0x1111 0x2222)
        \<lparr>cal_regs = False, desc = sun8i_ths_a83t_desc,
         tzds = [\<lparr>temp = 0x10\<rparr>, \<lparr>temp = 0x20\<rparr>, \<lparr>temp = 0x30\<rparr>]\<rparr> = Some (data', evs) \<and>
      temp (tzds data' ! 1) = 0x20 \<and> Thermal_zone_device_update 1 \<notin> set evs) \<and>
   (\<exists>data' evs.
      sun8i_ths_irq_thread (io_regs 0x100 0x1000 0x1111 0x2222)
        \<lparr>cal_regs = False, desc = sun8i_ths_a83t_desc,
         tzds = [\<lparr>temp = 0x10\<rparr>, \<lparr>temp = 0x20\<rparr>, \<lparr>temp = 0x30\<rparr>]\<rparr> = Some (data', evs) \<and>
      temp (tzds data' ! 2) = 0x30 \<and> Thermal_zone_device_update 2 \<notin> set evs)"
proof -
  let ?data = "\<lparr>cal_regs = False, desc = sun8i_ths_a83t_desc,
         tzds = [\<lparr>temp = 0x10\<rparr>, \<lparr>temp = 0x20\<rparr>, \<lparr>temp = 0x30\<rparr>]\<rparr>"
  let ?io = "io_regs 0x100 0x1000 0x1111 0x2222"
  have ok: "data_ok ?data"
    using a83t_desc_ok by (simp add: data_ok_def SUN8I_THS_MAX_TZDS_def)
  have f1: "\<not> (int 1 < num_sensors (desc ?data) \<and> flagged (desc ?data) 1 (?io Regs THS_SUN8I_STAT))"
    by (simp add: eval_defs)
  have f2: "\<not> (int 2 < num_sensors (desc ?data) \<and> flagged (desc ?data) 2 (?io Regs THS_SUN8I_STAT))"
    by (simp add: eval_defs)
  show ?thesis
    using unflagged_channel_untouched [of ?data 1 ?io] unflagged_channel_untouched [of ?data 2 ?io]
      ok f1 f2
    by simp
qed

subsection \<open>Status acknowledgement\<close>

lemma id_table_descs:
  "d \<in> snd ` set sun8i_ths_id_table \<longleftrightarrow> d = sun8i_ths_h3_desc \<or> d = sun8i_ths_a83t_desc"
  by (auto simp: sun8i_ths_id_table_def)

lemma id_table_desc_ok: "d \<in> snd ` set sun8i_ths_id_table \<Longrightarrow> desc_ok d"
  using h3_desc_ok a83t_desc_ok by (auto simp: id_table_descs)

lemma id_table_data_offset:
  assumes "d \<in> snd ` set sun8i_ths_id_table" and "int j < num_sensors d"
  shows "data_offset (sensors d ! j) \<noteq> THS_SUN8I_STAT"
proof -
  have "\<forall>z\<in>set (sensors d). data_offset z \<noteq> THS_SUN8I_STAT"
    using assms(1)
    by (auto simp: id_table_descs sun8i_ths_h3_desc_def sun8i_ths_a83t_desc_def
        sun8i_ths_h3_sensors_def sun8i_ths_a83t_sensors_def THS_SUN8I_STAT_def
        THS_SUN8I_DATA0_def THS_SUN8I_DATA1_def THS_SUN8I_DATA2_def)
  moreover have "j < length (sensors d)"
    using assms id_table_desc_ok [of d] by (simp add: desc_ok_def)
  ultimately show ?thesis by simp
qed

text \<open>
  Claim C9. For a device with one of the two descriptors of the match table, every
  invocation of the interrupt thread first reads the status register, then writes
  \<open>0x777\<close> to it, and after that neither reads the status register again nor writes
  any register, whatever the status word was.
\<close>

theorem status_read_once_cleared_once:
  assumes "desc data \<in> snd ` set sun8i_ths_id_table"
    and "length (tzds data) = SUN8I_THS_MAX_TZDS"
  shows "\<exists>data' rest.
           sun8i_ths_irq_thread io data
             = Some (data', Readl Regs THS_SUN8I_STAT (io Regs THS_SUN8I_STAT) #
                            Writel 0x777 Regs THS_SUN8I_STAT # rest) \<and>
           filter (is_readl Regs THS_SUN8I_STAT) rest = [] \<and>
           filter is_write rest = []"
proof -
  let ?d = "desc data" and ?status = "io Regs THS_SUN8I_STAT"
  let ?rest = "concat (map (chan_events io ?status ?d) [0..<nat (num_sensors ?d)])"
  have ok: "data_ok data"
    using assms id_table_desc_ok by (simp add: data_ok_def)
  obtain data' where
    s: "sun8i_ths_irq_thread io data
          = Some (data', Readl Regs THS_SUN8I_STAT ?status #
                         Writel THS_SUN8I_STAT_CLEAR Regs THS_SUN8I_STAT # ?rest)"
    using irq_thread_char [OF ok, of io] by blast
  have "\<not> is_readl Regs THS_SUN8I_STAT e" if "e \<in> set ?rest" for e
  proof
    assume r: "is_readl Regs THS_SUN8I_STAT e"
    from that obtain j where j: "int j < num_sensors ?d"
      and e: "e \<in> set (chan_events io ?status ?d j)"
      by (auto simp: zless_nat_eq_int_zless)
    from chan_events_readl [OF e r] id_table_data_offset [OF assms(1) j]
    show False by simp
  qed
  then have "filter (is_readl Regs THS_SUN8I_STAT) ?rest = []"
    by (simp only: filter_empty_conv) blast
  moreover have "\<not> is_write e" if "e \<in> set ?rest" for e
    using that chan_events_no_write by auto
  then have "filter is_write ?rest = []"
    by (simp only: filter_empty_conv) blast
  ultimately show ?thesis using s by (simp add: THS_SUN8I_STAT_CLEAR_def)
qed

text \<open>
  With no status bit set on the A83T, and on the H3 with only the status bits of
  channels 1 and 2, which the H3 descriptor does not define.
\<close>

theorem status_read_once_cleared_once_witness:
  "(\<exists>data' rest.
      sun8i_ths_irq_thread (io_regs 0 0x1000 0x1111 0x2222) (probe_data sun8i_ths_a83t_desc False)
        = Some (data', Readl Regs THS_SUN8I_STAT 0 # Writel 0x777 Regs THS_SUN8I_STAT # rest) \<and>
      filter (is_readl Regs THS_SUN8I_STAT) rest = [] \<and> filter is_write rest = []) \<and>
   (\<exists>data' rest.
      sun8i_ths_irq_thread (io_regs 0x600 0x1000 0x1111 0x2222) (probe_data sun8i_ths_h3_desc False)
        = Some (data', Readl Regs THS_SUN8I_STAT 0x600 # Writel 0x777 Regs THS_SUN8I_STAT # rest) \<and>
      filter (is_readl Regs THS_SUN8I_STAT) rest = [] \<and> filter is_write rest = [])"
proof -
  have a: "desc (probe_data sun8i_ths_a83t_desc False) \<in> snd ` set sun8i_ths_id_table"
    by (simp add: probe_data_def sun8i_ths_id_table_def)
  have h: "desc (probe_data sun8i_ths_h3_desc False) \<in> snd ` set sun8i_ths_id_table"
    by (simp add: probe_data_def sun8i_ths_id_table_def)
  have l: "length (tzds (probe_data d False)) = SUN8I_THS_MAX_TZDS" for d
    by (simp add: probe_data_def)
  show ?thesis
    using status_read_once_cleared_once [OF a l, of "io_regs 0 0x1000 0x1111 0x2222"]
      status_read_once_cleared_once [OF h l, of "io_regs 0x600 0x1000 0x1111 0x2222"]
    by (simp add: io_regs_def)
qed

section \<open>Loop bounds\<close>

lemma irq_body_desc:
  "irq_body io status i st = Some st' \<Longrightarrow> desc (fst st') = desc (fst st)"
  by (cases st) (auto simp: irq_body_def Let_def split: if_splits)

lemma irq_loop_iterate:
  "irq_loop io status i st
     = iterate (irq_body io status) [i..<nat (num_sensors (desc (fst st)))] st"
proof (induction "nat (num_sensors (desc (fst st))) - i" arbitrary: i st)
  case 0
  obtain data evs where st: "st = (data, evs)" by (cases st)
  from 0 have "\<not> int i < num_sensors (desc data)" by (simp add: st)
  then show ?case by (simp add: st irq_loop.simps)
next
  case (Suc k)
  obtain data evs where st: "st = (data, evs)" by (cases st)
  have lt: "int i < num_sensors (desc data)" using Suc.hyps(2) by (simp add: st)
  then have u: "[i..<nat (num_sensors (desc data))] = i # [Suc i..<nat (num_sensors (desc data))]"
    by (simp add: upt_conv_Cons)
  show ?case
  proof (cases "irq_body io status i (data, evs)")
    case None
    then show ?thesis using lt by (simp add: st irq_loop.simps u)
  next
    case (Some st')
    have d: "desc (fst st') = desc data" using irq_body_desc [OF Some] by simp
    have "k = nat (num_sensors (desc (fst st'))) - Suc i"
      using Suc.hyps(2) by (simp add: st d)
    from Suc.hyps(1) [OF this] show ?thesis
      using lt Some by (simp add: st irq_loop.simps [of io status i data evs] u d)
  qed
qed

lemma init_loop_iterate:
  "init_loop data i w = iterate (init_body data) [i..<nat (num_sensors (desc data))] w"
proof (induction "nat (num_sensors (desc data)) - i" arbitrary: i w)
  case 0
  then have "\<not> int i < num_sensors (desc data)" by simp
  then show ?case by (simp add: init_loop.simps)
next
  case (Suc k)
  have lt: "int i < num_sensors (desc data)" using Suc.hyps(2) by simp
  then have u: "[i..<nat (num_sensors (desc data))] = i # [Suc i..<nat (num_sensors (desc data))]"
    by (simp add: upt_conv_Cons)
  have k: "k = nat (num_sensors (desc data)) - Suc i" using Suc.hyps(2) by simp
  show ?case
    using lt Suc.hyps(1) [OF k]
    by (simp add: init_loop.simps [of data i w] u split: option.split)
qed

lemma init_loop_char:
  assumes "desc_ok (desc data)"
  shows "init_loop data i (ctrl2, int_ctrl)
     = Some (foldl (OR) ctrl2
               (map (\<lambda>j. sense_en (sensors (desc data) ! j)) [i..<nat (num_sensors (desc data))]),
             foldl (OR) int_ctrl
               (map (\<lambda>j. data_int_en (sensors (desc data) ! j)) [i..<nat (num_sensors (desc data))]))"
proof (induction "nat (num_sensors (desc data)) - i" arbitrary: i ctrl2 int_ctrl)
  case 0
  then have "\<not> int i < num_sensors (desc data)" by simp
  then show ?case by (simp add: init_loop.simps)
next
  case (Suc k)
  have lt: "int i < num_sensors (desc data)" using Suc.hyps(2) by simp
  then have u: "[i..<nat (num_sensors (desc data))] = i # [Suc i..<nat (num_sensors (desc data))]"
    by (simp add: upt_conv_Cons)
  have b: "i < length (sensors (desc data))"
    using lt assms by (simp add: desc_ok_def)
  have k: "k = nat (num_sensors (desc data)) - Suc i" using Suc.hyps(2) by simp
  show ?case
    using lt b Suc.hyps(1) [OF k]
    by (simp add: init_loop.simps [of data i "(ctrl2, int_ctrl)"] init_body_def u)
qed

text \<open>
  Claim C10. The H3 descriptor has 1 sensor and the A83T descriptor 3, neither more than
  \<open>SUN8I_THS_MAX_TZDS = 3\<close>. For a device with one of them, every index below
  \<open>num_sensors\<close> is inside \<open>tzds\<close> and inside the descriptor's \<open>sensors\<close> array, and
  both per-channel loops run their body exactly at the indices
  \<open>0, ..., num_sensors - 1\<close> and return.
\<close>

theorem defined_descriptors_in_bounds:
  assumes "desc data \<in> snd ` set sun8i_ths_id_table"
    and "length (tzds data) = SUN8I_THS_MAX_TZDS"
  shows "num_sensors sun8i_ths_h3_desc = 1 \<and> num_sensors sun8i_ths_a83t_desc = 3 \<and>
    SUN8I_THS_MAX_TZDS = 3 \<and>
    num_sensors (desc data) \<le> int SUN8I_THS_MAX_TZDS \<and>
    num_sensors (desc data) = int (length (sensors (desc data))) \<and>
    (\<forall>i. int i < num_sensors (desc data)
        \<longrightarrow> i < length (tzds data) \<and> i < length (sensors (desc data))) \<and>
    irq_loop io status 0 (data, evs)
      = iterate (irq_body io status) [0..<nat (num_sensors (desc data))] (data, evs) \<and>
    irq_loop io status 0 (data, evs) \<noteq> None \<and>
    init_loop data 0 w = iterate (init_body data) [0..<nat (num_sensors (desc data))] w \<and>
    init_loop data 0 w \<noteq> None \<and>
    length [0..<nat (num_sensors (desc data))] = nat (num_sensors (desc data))"
proof -
  have dok: "desc_ok (desc data)" using assms(1) by (rule id_table_desc_ok)
  then have ok: "data_ok data" using assms(2) by (simp add: data_ok_def)
  have n: "num_sensors (desc data) = int (length (sensors (desc data)))"
    using assms(1)
    by (auto simp: id_table_descs sun8i_ths_h3_desc_def sun8i_ths_a83t_desc_def)
  have b: "\<forall>i. int i < num_sensors (desc data)
        \<longrightarrow> i < length (tzds data) \<and> i < length (sensors (desc data))"
    using dok assms(2) by (auto simp: desc_ok_def)
  have l1: "irq_loop io status 0 (data, evs) \<noteq> None"
    using irq_loop_char [OF ok, of io status 0 evs] by auto
  have l2: "init_loop data 0 w \<noteq> None"
    using init_loop_char [OF dok, of 0 "fst w" "snd w"] by simp
  show ?thesis
    using dok n b l1 l2 irq_loop_iterate [of io status 0 "(data, evs)"]
      init_loop_iterate [of data 0 w]
    by (simp add: desc_ok_def sun8i_ths_h3_desc_def sun8i_ths_a83t_desc_def
        sun8i_ths_h3_sensors_def sun8i_ths_a83t_sensors_def SUN8I_THS_MAX_TZDS_def)
qed

text \<open>Both loops on the A83T, run on concrete register contents.\<close>

theorem defined_descriptors_in_bounds_witness:
  "irq_loop (io_regs 0x700 0x1000 0x1111 0x2222) 0x700 0
      (probe_data sun8i_ths_a83t_desc True, [])
    = Some (\<lparr>cal_regs = True, desc = sun8i_ths_a83t_desc,
             tzds = [\<lparr>temp = 0x1000\<rparr>, \<lparr>temp = 0x1111\<rparr>, \<lparr>temp = 0x2222\<rparr>]\<rparr>,
            [Readl Regs 0x80 0x1000, Thermal_zone_device_update 0,
             Readl Regs 0x84 0x1111, Thermal_zone_device_update 1,
             Readl Regs 0x88 0x2222, Thermal_zone_device_update 2]) \<and>
   init_loop (probe_data sun8i_ths_a83t_desc True) 0 (0, 0) = Some (0x7, 0x700)"
proof -
  have a: "desc (probe_data sun8i_ths_a83t_desc True) \<in> snd ` set sun8i_ths_id_table"
    by (simp add: probe_data_def sun8i_ths_id_table_def)
  have l: "length (tzds (probe_data sun8i_ths_a83t_desc True)) = SUN8I_THS_MAX_TZDS"
    by (simp add: probe_data_def)
  have n: "nat (num_sensors (desc (probe_data sun8i_ths_a83t_desc True))) = 3"
    by (simp add: probe_data_def sun8i_ths_a83t_desc_def sun8i_ths_a83t_sensors_def)
  have u: "[0..<3] = [0, Suc 0, Suc (Suc 0)]"
    by (simp add: numeral_3_eq_3)
  note w = defined_descriptors_in_bounds [OF a l,
      of "io_regs 0x700 0x1000 0x1111 0x2222" "0x700" "[]" "(0, 0)", unfolded n u]
  have "iterate (irq_body (io_regs 0x700 0x1000 0x1111 0x2222) 0x700) [0, Suc 0, Suc (Suc 0)]
      (probe_data sun8i_ths_a83t_desc True, [])
    = Some (\<lparr>cal_regs = True, desc = sun8i_ths_a83t_desc,
             tzds = [\<lparr>temp = 0x1000\<rparr>, \<lparr>temp = 0x1111\<rparr>, \<lparr>temp = 0x2222\<rparr>]\<rparr>,
            [Readl Regs 0x80 0x1000, Thermal_zone_device_update 0,
             Readl Regs 0x84 0x1111, Thermal_zone_device_update 1,
             Readl Regs 0x88 0x2222, Thermal_zone_device_update 2])"
    by (simp add: eval_defs numeral_3_eq_3)
  moreover have "iterate (init_body (probe_data sun8i_ths_a83t_desc True))
      [0, Suc 0, Suc (Suc 0)] (0, 0) = Some (0x7, 0x700)"
    by (simp add: eval_defs init_body_def)
  ultimately show ?thesis using w by simp
qed

section \<open>Properties of the initialisation\<close>

lemmas reg_defs =
  THS_SUN8I_CTRL0_def THS_SUN8I_CTRL2_def THS_SUN8I_INT_CTRL_def THS_SUN8I_FILTER_def
  THS_SUN8I_CDATA01_def THS_SUN8I_CDATA2_def

lemma init_constants:
  "THS_SUN8I_CTRL0_SENSOR_ACQ0 THS_SUN8I_CTRL0_SENSOR_ACQ0_VALUE = 0x3f"
  "THS_SUN8I_FILTER_EN OR THS_SUN8I_FILTER_TYPE THS_SUN8I_FILTER_TYPE_VALUE = 0x6"
  "0 OR THS_SUN8I_CTRL2_SENSOR_ACQ1 THS_SUN8I_CTRL2_SENSOR_ACQ1_VALUE = 0x3f0000"
  "0 OR THS_SUN8I_INT_CTRL_THERMAL_PER THS_SUN8I_INT_CTRL_THERMAL_PER_VALUE = 0x191000"
  by (simp_all add: THS_SUN8I_CTRL0_SENSOR_ACQ0_def THS_SUN8I_CTRL0_SENSOR_ACQ0_VALUE_def
      THS_SUN8I_FILTER_EN_def THS_SUN8I_FILTER_TYPE_def THS_SUN8I_FILTER_TYPE_VALUE_def
      THS_SUN8I_CTRL2_SENSOR_ACQ1_def THS_SUN8I_CTRL2_SENSOR_ACQ1_VALUE_def
      THS_SUN8I_INT_CTRL_THERMAL_PER_def THS_SUN8I_INT_CTRL_THERMAL_PER_VALUE_def
      THS_SUN8I_DATA_PERIOD_def THS_SUN8I_CLK_IN_def THS_SUN8I_FILTER_DIV_def BIT_def)

lemma init_char:
  assumes "desc_ok (desc data)"
  shows "sun8i_ths_init io data
     = Some ([Writel 0x3f Regs THS_SUN8I_CTRL0, Writel 0x6 Regs THS_SUN8I_FILTER] @
             init_cal io data @
             [Writel (foldl (OR) 0x3f0000
                        (map (\<lambda>j. sense_en (sensors (desc data) ! j))
                             [0..<nat (num_sensors (desc data))]))
                     Regs THS_SUN8I_CTRL2,
              Writel (foldl (OR) 0x191000
                        (map (\<lambda>j. data_int_en (sensors (desc data) ! j))
                             [0..<nat (num_sensors (desc data))]))
                     Regs THS_SUN8I_INT_CTRL])"
  unfolding sun8i_ths_init_def Let_def init_constants init_loop_char [OF assms]
  by simp

lemma init_cal_events:
  "e \<in> set (init_cal io data) \<Longrightarrow>
     is_read_from Cal_regs e \<or> is_writel Regs THS_SUN8I_CDATA01 e \<or>
     is_writel Regs THS_SUN8I_CDATA2 e"
  by (auto simp: init_cal_def Let_def split: if_splits)

text \<open>
  Claim C6. \<open>sun8i_ths_init\<close> performs, in this order: the write of the acquisition
  time \<open>0x3f\<close> to \<open>CTRL0\<close>; the write of the filter word to \<open>FILTER\<close>; the accesses of
  the calibration block (reads of the calibration region and writes to \<open>CDATA01\<close> and
  \<open>CDATA2\<close> only); the write to \<open>CTRL2\<close> of the word accumulated from all channels'
  \<open>sense_en\<close> bits (on top of the second acquisition-time field); and last the write to
  \<open>INT_CTRL\<close> of the word accumulated from all channels' \<open>data_int_en\<close> bits on top of
  the thermal period 401 shifted by 12.
\<close>

theorem init_write_order:
  assumes "desc_ok (desc data)"
  shows "sun8i_ths_init io data
     = Some ([Writel 0x3f Regs THS_SUN8I_CTRL0, Writel 0x6 Regs THS_SUN8I_FILTER] @
             init_cal io data @
             [Writel (foldl (OR) (push_bit 16 0x3f)
                        (map (\<lambda>j. sense_en (sensors (desc data) ! j))
                             [0..<nat (num_sensors (desc data))]))
                     Regs THS_SUN8I_CTRL2,
              Writel (foldl (OR) (push_bit 12 401)
                        (map (\<lambda>j. data_int_en (sensors (desc data) ! j))
                             [0..<nat (num_sensors (desc data))]))
                     Regs THS_SUN8I_INT_CTRL]) \<and>
    (\<forall>e\<in>set (init_cal io data).
        is_read_from Cal_regs e \<or> is_writel Regs THS_SUN8I_CDATA01 e \<or>
        is_writel Regs THS_SUN8I_CDATA2 e)"
  using init_char [OF assms, of io] init_cal_events [of _ io data] by auto

text \<open>The whole sequence on the A83T with both calibration words programmed.\<close>

theorem init_write_order_witness:
  "sun8i_ths_init (io_cal 0x11 0x22) (probe_data sun8i_ths_a83t_desc True)
     = Some [Writel 0x3f Regs 0x00, Writel 0x6 Regs 0x70,
             Readl Cal_regs 0 0x11, Writel 0x11 Regs 0x74,
             Readl Cal_regs 4 0x22, Writel 0x22 Regs 0x78,
             Writel 0x3f0007 Regs 0x40, Writel 0x191700 Regs 0x44]"
proof -
  have ok: "desc_ok (desc (probe_data sun8i_ths_a83t_desc True))"
    using a83t_desc_ok by (simp add: probe_data_def)
  show ?thesis
    using init_write_order [OF ok, of "io_cal 0x11 0x22"]
    by (simp add: eval_defs reg_defs init_cal_def numeral_3_eq_3)
qed

text \<open>
  Claim C5. During \<open>sun8i_ths_init\<close>, the first calibration word is written to
  \<open>CDATA01\<close> (once) exactly when a calibration region is mapped and the word reads
  nonzero; the word at offset 4 is written to \<open>CDATA2\<close> (once) exactly when a region is
  mapped, the descriptor has \<open>has_cal1\<close> and that word reads nonzero; the calibration
  region is read at offset 0 exactly when it is mapped and at offset 4 exactly when in
  addition \<open>has_cal1\<close> holds, so without a region there is no calibration read or
  write; and a zero first word followed by a nonzero second word gives exactly one
  calibration write, the second.
\<close>

theorem calibration_loader_writes:
  assumes "desc_ok (desc data)"
  shows "\<exists>evs. sun8i_ths_init io data = Some evs \<and>
     filter (is_writel Regs THS_SUN8I_CDATA01) evs =
       (if cal_regs data \<and> io Cal_regs 0 \<noteq> 0
        then [Writel (io Cal_regs 0) Regs THS_SUN8I_CDATA01] else []) \<and>
     filter (is_writel Regs THS_SUN8I_CDATA2) evs =
       (if cal_regs data \<and> has_cal1 (desc data) \<and> io Cal_regs 4 \<noteq> 0
        then [Writel (io Cal_regs 4) Regs THS_SUN8I_CDATA2] else []) \<and>
     filter (is_read_from Cal_regs) evs =
       (if cal_regs data
        then Readl Cal_regs 0 (io Cal_regs 0) #
             (if has_cal1 (desc data) then [Readl Cal_regs 4 (io Cal_regs 4)] else [])
        else []) \<and>
     (cal_regs data \<and> has_cal1 (desc data) \<and> io Cal_regs 0 = 0 \<and> io Cal_regs 4 \<noteq> 0 \<longrightarrow>
        filter (\<lambda>e. is_writel Regs THS_SUN8I_CDATA01 e \<or> is_writel Regs THS_SUN8I_CDATA2 e) evs
          = [Writel (io Cal_regs 4) Regs THS_SUN8I_CDATA2])"
  unfolding init_char [OF assms]
  by (simp add: init_cal_def Let_def reg_defs)

text \<open>The A83T with a zero first word and a nonzero second word.\<close>

theorem calibration_loader_writes_witness:
  "\<exists>evs. sun8i_ths_init (io_cal 0 0x22) (probe_data sun8i_ths_a83t_desc True) = Some evs \<and>
     filter (is_writel Regs THS_SUN8I_CDATA01) evs = [] \<and>
     filter (is_writel Regs THS_SUN8I_CDATA2) evs = [Writel 0x22 Regs THS_SUN8I_CDATA2] \<and>
     filter (is_read_from Cal_regs) evs = [Readl Cal_regs 0 0, Readl Cal_regs 4 0x22] \<and>
     filter (\<lambda>e. is_writel Regs THS_SUN8I_CDATA01 e \<or> is_writel Regs THS_SUN8I_CDATA2 e) evs
          = [Writel 0x22 Regs THS_SUN8I_CDATA2]"
proof -
  have ok: "desc_ok (desc (probe_data sun8i_ths_a83t_desc True))"
    using a83t_desc_ok by (simp add: probe_data_def)
  show ?thesis
    using calibration_loader_writes [OF ok, of "io_cal 0 0x22"]
    by (simp add: probe_data_def sun8i_ths_a83t_desc_def io_cal_def)
qed

end
